theory Spec2Isabelle
  imports Complex_Main "HOL-Library.Signed_Division"
begin

section \<open>Greenhouse monitor and controller (ESP32 sketch, main.c)\<close>

text \<open>
  The sketch keeps all of its state in file-scope globals and changes it from three
  places: the sensor poll \<^verbatim>\<open>lerSensores\<close>, the control decision \<^verbatim>\<open>controlar\<close>
  and the HTTP handlers. The model is a record of those globals, passed through each
  function and returned updated. Output-only effects (the LCD text and the serial log)
  do not feed back into the state and are left out; the two relay pins are kept, because
  \<^verbatim>\<open>controlar\<close> commits its decision to them.
\<close>

subsection \<open>C values\<close>

text \<open>
  A C \<^verbatim>\<open>float\<close>, as far as the sketch uses it: it is stored, tested with
  \<^verbatim>\<open>isnan\<close> and compared with \<^verbatim>\<open><\<close> and \<^verbatim>\<open>>\<close>. IEEE comparison is exact, so a
  finite float is the real number it denotes; the two infinities and NaN are values of
  their own, and every comparison with NaN is false.
\<close>

datatype float = NaN | NegInf | Finite real | PosInf

fun isnan :: "float \<Rightarrow> bool" where
  "isnan NaN = True"
| "isnan _ = False"

fun flt_less :: "float \<Rightarrow> float \<Rightarrow> bool" where
  "flt_less (Finite x) (Finite y) = (x < y)"
| "flt_less NegInf (Finite y) = True"
| "flt_less NegInf PosInf = True"
| "flt_less (Finite x) PosInf = True"
| "flt_less _ _ = False"

definition flt_greater :: "float \<Rightarrow> float \<Rightarrow> bool" where
  "flt_greater a b = flt_less b a"

text \<open>A GPIO output level. The relay module is active LOW: LOW switches the device on.\<close>

datatype level = LOW | HIGH

subsection \<open>The globals\<close>

record state =
  cfg_tempLigar :: float
  cfg_tempDeslig :: float
  cfg_umidLigar :: float
  cfg_umidDeslig :: float
  cfg_luzLigar :: int
  cfg_luzDeslig :: int
  temperatura :: float
  umidade :: float
  pctLuz :: int
  lampada :: bool
  motor :: bool
  modoManual :: bool
  lampManual :: bool
  motManual :: bool
  pin_relay_lampada :: level
  pin_relay_motor :: level

subsection \<open>Actuators: \<^verbatim>\<open>controlar\<close>\<close>

text \<open>
  The automatic branch is four \<^verbatim>\<open>if\<close> statements run one after the other, each
  reading the globals the one before it may have written. Each statement is one
  definition, in the order of the source.
\<close>

definition motor_liga :: "state \<Rightarrow> state" where
  "motor_liga s =
     (if \<not> motor s \<and> (flt_greater (temperatura s) (cfg_tempLigar s)
                       \<or> flt_greater (umidade s) (cfg_umidLigar s))
      then s\<lparr>motor := True\<rparr> else s)"

definition motor_desliga :: "state \<Rightarrow> state" where
  "motor_desliga s =
     (if motor s \<and> (flt_less (temperatura s) (cfg_tempDeslig s)
                     \<and> flt_less (umidade s) (cfg_umidDeslig s))
      then s\<lparr>motor := False\<rparr> else s)"

definition lampada_liga :: "state \<Rightarrow> state" where
  "lampada_liga s =
     (if \<not> lampada s \<and> pctLuz s < cfg_luzLigar s then s\<lparr>lampada := True\<rparr> else s)"

definition lampada_desliga :: "state \<Rightarrow> state" where
  "lampada_desliga s =
     (if lampada s \<and> pctLuz s > cfg_luzDeslig s then s\<lparr>lampada := False\<rparr> else s)"

definition automatico :: "state \<Rightarrow> state" where
  "automatico s = lampada_desliga (lampada_liga (motor_desliga (motor_liga s)))"

definition manual :: "state \<Rightarrow> state" where
  "manual s = s\<lparr>lampada := lampManual s, motor := motManual s\<rparr>"

text \<open>The two \<^verbatim>\<open>digitalWrite\<close> calls that end \<^verbatim>\<open>controlar\<close>.\<close>

definition escreve_reles :: "state \<Rightarrow> state" where
  "escreve_reles s =
     s\<lparr>pin_relay_lampada := (if lampada s then LOW else HIGH),
       pin_relay_motor := (if motor s then LOW else HIGH)\<rparr>"

definition controlar :: "state \<Rightarrow> state" where
  "controlar s = escreve_reles (if modoManual s then manual s else automatico s)"

subsection \<open>Sensors: \<^verbatim>\<open>lerSensores\<close>\<close>

text \<open>
  What the hardware returns in one poll: the two DHT22 reads (NaN on a failed read) and
  the raw ADC count of the LDR.
\<close>

record sensors =
  readTemperature :: float
  readHumidity :: float
  analogRead :: int

text \<open>
  \<^verbatim>\<open>map\<close> and \<^verbatim>\<open>constrain\<close> belong to the Arduino core, not to the sketch. They
  are written as the core defines them: \<^verbatim>\<open>map\<close> is integer arithmetic with C's
  truncating division, \<^verbatim>\<open>constrain\<close> is the clamping macro.
\<close>

definition map_long :: "int \<Rightarrow> int \<Rightarrow> int \<Rightarrow> int \<Rightarrow> int \<Rightarrow> int" where
  "map_long x in_min in_max out_min out_max =
     ((x - in_min) * (out_max - out_min)) sdiv (in_max - in_min) + out_min"

definition constrain :: "int \<Rightarrow> int \<Rightarrow> int \<Rightarrow> int" where
  "constrain amt low high = (if amt < low then low else if amt > high then high else amt)"

definition lerSensores :: "sensors \<Rightarrow> state \<Rightarrow> state" where
  "lerSensores hw s =
     (let t = readTemperature hw;
          h = readHumidity hw;
          s1 = (if \<not> isnan t then s\<lparr>temperatura := t\<rparr> else s);
          s2 = (if \<not> isnan h then s1\<lparr>umidade := h\<rparr> else s1);
          adc = analogRead hw
      in s2\<lparr>pctLuz := constrain (map_long adc 0 4095 0 100) 0 100\<rparr>)"

text \<open>
  The sensor block of \<^verbatim>\<open>loop\<close> (and the first reading in \<^verbatim>\<open>setup\<close>):
  \<^verbatim>\<open>lerSensores(); controlar(); mostrarTela();\<close>.
\<close>

definition tick :: "sensors \<Rightarrow> state \<Rightarrow> state" where
  "tick hw s = controlar (lerSensores hw s)"

subsection \<open>HTTP requests and responses\<close>

text \<open>
  A request is its named arguments. \<^verbatim>\<open>server.hasArg\<close> and \<^verbatim>\<open>server.arg\<close> both
  look for the first argument of that name; \<^verbatim>\<open>arg\<close> gives the empty string when
  there is none.
\<close>

type_synonym request = "string \<rightharpoonup> string"

definition hasArg :: "request \<Rightarrow> string \<Rightarrow> bool" where
  "hasArg req k = (req k \<noteq> None)"

definition arg :: "request \<Rightarrow> string \<Rightarrow> string" where
  "arg req k = (case req k of None \<Rightarrow> [] | Some v \<Rightarrow> v)"

text \<open>
  \<^verbatim>\<open>String::toInt\<close> and \<^verbatim>\<open>String::toFloat\<close> are the Arduino core's wrappers of
  \<^verbatim>\<open>atol\<close> and \<^verbatim>\<open>atof\<close>. The handlers take them as a parameter, so every
  theorem about a handler holds whatever the two functions return. \<^verbatim>\<open>toInt\<close>
  returns a \<^verbatim>\<open>long\<close>, which on the ESP32 has the 32 bits of the \<^verbatim>\<open>int\<close> it is
  stored in, so storing it changes nothing.
\<close>

record wstring =
  toInt :: "string \<Rightarrow> int"
  toFloat :: "string \<Rightarrow> float"

text \<open>
  A response: the status code, the content type and the body of \<^verbatim>\<open>server.send\<close>
  (the extra headers of \<^verbatim>\<open>sendHeader\<close> are not kept).
  A JSON body is kept as its list of fields; \<^verbatim>\<open>JFloat1\<close> is a float printed with one
  decimal, \<^verbatim>\<open>String(x, 1)\<close>.
\<close>

datatype jvalue = JInt int | JFloat1 float

datatype body = Text string | Json "(string \<times> jvalue) list"

record response =
  status :: nat
  mime :: string
  body :: body

definition apostrofo :: char where
  "apostrofo = CHR 0x27"

definition ok_1 :: response where
  "ok_1 = \<lparr>status = 200, mime = ''application/json'', body = Json [(''ok'', JInt 1)]\<rparr>"

definition falta_mode :: response where
  "falta_mode = \<lparr>status = 400, mime = ''text/plain'',
     body = Text (''falta '' @ [apostrofo] @ ''mode'' @ [apostrofo])\<rparr>"

definition falta_channel_state :: response where
  "falta_channel_state = \<lparr>status = 400, mime = ''text/plain'',
     body = Text (''falta '' @ [apostrofo] @ ''channel'' @ [apostrofo] @ '' ou ''
                  @ [apostrofo] @ ''state'' @ [apostrofo])\<rparr>"

definition modo_automatico_ativo :: response where
  "modo_automatico_ativo =
     \<lparr>status = 403, mime = ''text/plain'', body = Text ''modo automatico ativo''\<rparr>"

definition bit01 :: "bool \<Rightarrow> jvalue" where
  "bit01 b = JInt (if b then 1 else 0)"

subsection \<open>The API handlers\<close>

definition handleGetData :: "state \<Rightarrow> response \<times> state" where
  "handleGetData s =
     (\<lparr>status = 200, mime = ''application/json'',
       body = Json
         [(''temp'', JFloat1 (temperatura s)),
          (''umid'', JFloat1 (umidade s)),
          (''luz'', JInt (pctLuz s)),
          (''lampada'', bit01 (lampada s)),
          (''motor'', bit01 (motor s)),
          (''modoManual'', bit01 (modoManual s)),
          (''tempLigar'', JFloat1 (cfg_tempLigar s)),
          (''tempDeslig'', JFloat1 (cfg_tempDeslig s)),
          (''umidLigar'', JFloat1 (cfg_umidLigar s)),
          (''umidDeslig'', JFloat1 (cfg_umidDeslig s)),
          (''luzLigar'', JInt (cfg_luzLigar s)),
          (''luzDeslig'', JInt (cfg_luzDeslig s))]\<rparr>, s)"

definition handleSetMode :: "wstring \<Rightarrow> request \<Rightarrow> state \<Rightarrow> response \<times> state" where
  "handleSetMode L req s =
     (if \<not> hasArg req ''mode'' then (falta_mode, s)
      else
        let novoManual = (toInt L (arg req ''mode'') = 1);
            s1 = (if novoManual \<and> \<not> modoManual s
                  then s\<lparr>lampManual := lampada s, motManual := motor s\<rparr> else s)
        in (ok_1, s1\<lparr>modoManual := novoManual\<rparr>))"

definition handleSetRelay :: "wstring \<Rightarrow> request \<Rightarrow> state \<Rightarrow> response \<times> state" where
  "handleSetRelay L req s =
     (if \<not> hasArg req ''channel'' \<or> \<not> hasArg req ''state'' then (falta_channel_state, s)
      else if \<not> modoManual s then (modo_automatico_ativo, s)
      else
        let ch = arg req ''channel'';
            st = toInt L (arg req ''state'');
            s1 = (if ch = ''lamp'' then s\<lparr>lampManual := (st = 1)\<rparr> else s);
            s2 = (if ch = ''motor'' then s1\<lparr>motManual := (st = 1)\<rparr> else s1)
        in (ok_1, controlar s2))"

definition handleSetConfig :: "wstring \<Rightarrow> request \<Rightarrow> state \<Rightarrow> response \<times> state" where
  "handleSetConfig L req s =
     (let s1 = (if hasArg req ''tempLigar''
                then s\<lparr>cfg_tempLigar := toFloat L (arg req ''tempLigar'')\<rparr> else s);
          s2 = (if hasArg req ''tempDeslig''
                then s1\<lparr>cfg_tempDeslig := toFloat L (arg req ''tempDeslig'')\<rparr> else s1);
          s3 = (if hasArg req ''umidLigar''
                then s2\<lparr>cfg_umidLigar := toFloat L (arg req ''umidLigar'')\<rparr> else s2);
          s4 = (if hasArg req ''umidDeslig''
                then s3\<lparr>cfg_umidDeslig := toFloat L (arg req ''umidDeslig'')\<rparr> else s3);
          s5 = (if hasArg req ''luzLigar''
                then s4\<lparr>cfg_luzLigar := toInt L (arg req ''luzLigar'')\<rparr> else s4);
          s6 = (if hasArg req ''luzDeslig''
                then s5\<lparr>cfg_luzDeslig := toInt L (arg req ''luzDeslig'')\<rparr> else s5)
      in (ok_1, s6))"

subsection \<open>Start-up and the main loop\<close>

text \<open>
  The globals as their initialisers leave them, with both relay pins HIGH as
  \<^verbatim>\<open>setup\<close> writes them before anything else runs.
\<close>

definition boot :: state where
  "boot = \<lparr>cfg_tempLigar = Finite 30, cfg_tempDeslig = Finite 27,
           cfg_umidLigar = Finite 70, cfg_umidDeslig = Finite 60,
           cfg_luzLigar = 25, cfg_luzDeslig = 35,
           temperatura = Finite 0, umidade = Finite 0, pctLuz = 0,
           lampada = False, motor = False,
           modoManual = False, lampManual = False, motManual = False,
           pin_relay_lampada = HIGH, pin_relay_motor = HIGH\<rparr>"

text \<open>\<^verbatim>\<open>setup\<close> ends with a first reading and a first control decision.\<close>

definition setup_sketch :: "sensors \<Rightarrow> state" where
  "setup_sketch hw = tick hw boot"

text \<open>
  One pass of \<^verbatim>\<open>loop\<close> serves at most one request and then, when a second has
  passed, runs the sensor block. Both run to completion, so a history of the system is a
  list of events.
\<close>

datatype event =
    Tick sensors
  | GetData
  | SetMode request
  | SetRelay request
  | SetConfig request

fun step :: "wstring \<Rightarrow> state \<Rightarrow> event \<Rightarrow> state" where
  "step L s (Tick hw) = tick hw s"
| "step L s GetData = snd (handleGetData s)"
| "step L s (SetMode req) = snd (handleSetMode L req s)"
| "step L s (SetRelay req) = snd (handleSetRelay L req s)"
| "step L s (SetConfig req) = snd (handleSetConfig L req s)"

definition run :: "wstring \<Rightarrow> sensors \<Rightarrow> event list \<Rightarrow> state" where
  "run L hw evs = foldl (step L) (setup_sketch hw) evs"

subsection \<open>A sample of the string conversions\<close>

text \<open>
  \<^verbatim>\<open>atol\<close> on text that does not overflow: leading white space, an optional sign,
  then decimal digits up to the first other character; 0 when there is no digit. It is
  the instance of \<^verbatim>\<open>toInt\<close> at which the examples below are evaluated.
\<close>

definition isspace :: "char \<Rightarrow> bool" where
  "isspace c = (c \<in> set [CHR 0x20, CHR 0x09, CHR 0x0A, CHR 0x0B, CHR 0x0C, CHR 0x0D])"

definition isdigit :: "char \<Rightarrow> bool" where
  "isdigit c = (48 \<le> (of_char c :: nat) \<and> (of_char c :: nat) \<le> 57)"

fun digits :: "int \<Rightarrow> string \<Rightarrow> int" where
  "digits acc [] = acc"
| "digits acc (c # cs) =
     (if isdigit c then digits (acc * 10 + (of_char c - 48)) cs else acc)"

definition atol :: "string \<Rightarrow> int" where
  "atol str =
     (case dropWhile isspace str of
        [] \<Rightarrow> 0
      | c # cs \<Rightarrow>
          if c = CHR ''-'' then - digits 0 cs
          else if c = CHR ''+'' then digits 0 cs
          else digits 0 (c # cs))"

text \<open>On the text of a whole number \<^verbatim>\<open>atof\<close> gives that number.\<close>

definition arduino :: wstring where
  "arduino = \<lparr>toInt = atol, toFloat = (\<lambda>str. Finite (of_int (atol str)))\<rparr>"

subsection \<open>Reading a response\<close>

text \<open>A response signals an error when its status is a 4xx or 5xx code.\<close>

definition is_error :: "response \<Rightarrow> bool" where
  "is_error r = (400 \<le> status r)"

definition json_field :: "response \<Rightarrow> string \<Rightarrow> jvalue option" where
  "json_field r k = (case body r of Json fs \<Rightarrow> map_of fs k | Text _ \<Rightarrow> None)"

text \<open>
  What holds between the globals whenever \<^verbatim>\<open>loop\<close> is between two events: each
  relay pin carries the level of its actuator flag, and in manual mode the actuator
  flags are the manual overrides.
\<close>

definition consistente :: "state \<Rightarrow> bool" where
  "consistente s =
     (pin_relay_lampada s = (if lampada s then LOW else HIGH)
      \<and> pin_relay_motor s = (if motor s then LOW else HIGH)
      \<and> (if modoManual s then lampada s = lampManual s \<and> motor s = motManual s else True))"

subsection \<open>Example inputs\<close>

text \<open>
  Two sensor polls used in the examples: a mild night (25 degrees, 50 percent humidity,
  no light), and a poll in which the humidity read of the DHT22 fails.
\<close>

definition noite :: sensors where
  "noite = \<lparr>readTemperature = Finite 25, readHumidity = Finite 50, analogRead = 0\<rparr>"

definition falha_umidade :: sensors where
  "falha_umidade = \<lparr>readTemperature = Finite 28, readHumidity = NaN, analogRead = 2048\<rparr>"

section \<open>Properties\<close>

subsection \<open>What each statement of \<^verbatim>\<open>controlar\<close> does to each global\<close>

lemma motor_liga_fields:
  "cfg_tempLigar (motor_liga s) = cfg_tempLigar s"
  "cfg_tempDeslig (motor_liga s) = cfg_tempDeslig s"
  "cfg_umidLigar (motor_liga s) = cfg_umidLigar s"
  "cfg_umidDeslig (motor_liga s) = cfg_umidDeslig s"
  "cfg_luzLigar (motor_liga s) = cfg_luzLigar s"
  "cfg_luzDeslig (motor_liga s) = cfg_luzDeslig s"
  "temperatura (motor_liga s) = temperatura s"
  "umidade (motor_liga s) = umidade s"
  "pctLuz (motor_liga s) = pctLuz s"
  "lampada (motor_liga s) = lampada s"
  "motor (motor_liga s) = (motor s \<or> (flt_greater (temperatura s) (cfg_tempLigar s) \<or> flt_greater (umidade s) (cfg_umidLigar s)))"
  "modoManual (motor_liga s) = modoManual s"
  "lampManual (motor_liga s) = lampManual s"
  "motManual (motor_liga s) = motManual s"
  "pin_relay_lampada (motor_liga s) = pin_relay_lampada s"
  "pin_relay_motor (motor_liga s) = pin_relay_motor s"
  "state.more (motor_liga s) = state.more s"
  by (auto simp: motor_liga_def)

lemma motor_desliga_fields:
  "cfg_tempLigar (motor_desliga s) = cfg_tempLigar s"
  "cfg_tempDeslig (motor_desliga s) = cfg_tempDeslig s"
  "cfg_umidLigar (motor_desliga s) = cfg_umidLigar s"
  "cfg_umidDeslig (motor_desliga s) = cfg_umidDeslig s"
  "cfg_luzLigar (motor_desliga s) = cfg_luzLigar s"
  "cfg_luzDeslig (motor_desliga s) = cfg_luzDeslig s"
  "temperatura (motor_desliga s) = temperatura s"
  "umidade (motor_desliga s) = umidade s"
  "pctLuz (motor_desliga s) = pctLuz s"
  "lampada (motor_desliga s) = lampada s"
  "motor (motor_desliga s) = (motor s \<and> \<not> (flt_less (temperatura s) (cfg_tempDeslig s) \<and> flt_less (umidade s) (cfg_umidDeslig s)))"
  "modoManual (motor_desliga s) = modoManual s"
  "lampManual (motor_desliga s) = lampManual s"
  "motManual (motor_desliga s) = motManual s"
  "pin_relay_lampada (motor_desliga s) = pin_relay_lampada s"
  "pin_relay_motor (motor_desliga s) = pin_relay_motor s"
  "state.more (motor_desliga s) = state.more s"
  by (auto simp: motor_desliga_def)

lemma lampada_liga_fields:
  "cfg_tempLigar (lampada_liga s) = cfg_tempLigar s"
  "cfg_tempDeslig (lampada_liga s) = cfg_tempDeslig s"
  "cfg_umidLigar (lampada_liga s) = cfg_umidLigar s"
  "cfg_umidDeslig (lampada_liga s) = cfg_umidDeslig s"
  "cfg_luzLigar (lampada_liga s) = cfg_luzLigar s"
  "cfg_luzDeslig (lampada_liga s) = cfg_luzDeslig s"
  "temperatura (lampada_liga s) = temperatura s"
  "umidade (lampada_liga s) = umidade s"
  "pctLuz (lampada_liga s) = pctLuz s"
  "lampada (lampada_liga s) = (lampada s \<or> pctLuz s < cfg_luzLigar s)"
  "motor (lampada_liga s) = motor s"
  "modoManual (lampada_liga s) = modoManual s"
  "lampManual (lampada_liga s) = lampManual s"
  "motManual (lampada_liga s) = motManual s"
  "pin_relay_lampada (lampada_liga s) = pin_relay_lampada s"
  "pin_relay_motor (lampada_liga s) = pin_relay_motor s"
  "state.more (lampada_liga s) = state.more s"
  by (auto simp: lampada_liga_def)

lemma lampada_desliga_fields:
  "cfg_tempLigar (lampada_desliga s) = cfg_tempLigar s"
  "cfg_tempDeslig (lampada_desliga s) = cfg_tempDeslig s"
  "cfg_umidLigar (lampada_desliga s) = cfg_umidLigar s"
  "cfg_umidDeslig (lampada_desliga s) = cfg_umidDeslig s"
  "cfg_luzLigar (lampada_desliga s) = cfg_luzLigar s"
  "cfg_luzDeslig (lampada_desliga s) = cfg_luzDeslig s"
  "temperatura (lampada_desliga s) = temperatura s"
  "umidade (lampada_desliga s) = umidade s"
  "pctLuz (lampada_desliga s) = pctLuz s"
  "lampada (lampada_desliga s) = (lampada s \<and> \<not> cfg_luzDeslig s < pctLuz s)"
  "motor (lampada_desliga s) = motor s"
  "modoManual (lampada_desliga s) = modoManual s"
  "lampManual (lampada_desliga s) = lampManual s"
  "motManual (lampada_desliga s) = motManual s"
  "pin_relay_lampada (lampada_desliga s) = pin_relay_lampada s"
  "pin_relay_motor (lampada_desliga s) = pin_relay_motor s"
  "state.more (lampada_desliga s) = state.more s"
  by (auto simp: lampada_desliga_def)

lemma manual_fields:
  "cfg_tempLigar (manual s) = cfg_tempLigar s"
  "cfg_tempDeslig (manual s) = cfg_tempDeslig s"
  "cfg_umidLigar (manual s) = cfg_umidLigar s"
  "cfg_umidDeslig (manual s) = cfg_umidDeslig s"
  "cfg_luzLigar (manual s) = cfg_luzLigar s"
  "cfg_luzDeslig (manual s) = cfg_luzDeslig s"
  "temperatura (manual s) = temperatura s"
  "umidade (manual s) = umidade s"
  "pctLuz (manual s) = pctLuz s"
  "lampada (manual s) = lampManual s"
  "motor (manual s) = motManual s"
  "modoManual (manual s) = modoManual s"
  "lampManual (manual s) = lampManual s"
  "motManual (manual s) = motManual s"
  "pin_relay_lampada (manual s) = pin_relay_lampada s"
  "pin_relay_motor (manual s) = pin_relay_motor s"
  "state.more (manual s) = state.more s"
  by (auto simp: manual_def)

lemma escreve_reles_fields:
  "cfg_tempLigar (escreve_reles s) = cfg_tempLigar s"
  "cfg_tempDeslig (escreve_reles s) = cfg_tempDeslig s"
  "cfg_umidLigar (escreve_reles s) = cfg_umidLigar s"
  "cfg_umidDeslig (escreve_reles s) = cfg_umidDeslig s"
  "cfg_luzLigar (escreve_reles s) = cfg_luzLigar s"
  "cfg_luzDeslig (escreve_reles s) = cfg_luzDeslig s"
  "temperatura (escreve_reles s) = temperatura s"
  "umidade (escreve_reles s) = umidade s"
  "pctLuz (escreve_reles s) = pctLuz s"
  "lampada (escreve_reles s) = lampada s"
  "motor (escreve_reles s) = motor s"
  "modoManual (escreve_reles s) = modoManual s"
  "lampManual (escreve_reles s) = lampManual s"
  "motManual (escreve_reles s) = motManual s"
  "pin_relay_lampada (escreve_reles s) = (if lampada s then LOW else HIGH)"
  "pin_relay_motor (escreve_reles s) = (if motor s then LOW else HIGH)"
  "state.more (escreve_reles s) = state.more s"
  by (auto simp: escreve_reles_def)

lemmas passo_fields = motor_liga_fields motor_desliga_fields lampada_liga_fields
  lampada_desliga_fields manual_fields escreve_reles_fields

lemma automatico_fields:
  "motor (automatico s) =
     ((motor s \<or> flt_greater (temperatura s) (cfg_tempLigar s)
               \<or> flt_greater (umidade s) (cfg_umidLigar s))
      \<and> \<not> (flt_less (temperatura s) (cfg_tempDeslig s)
           \<and> flt_less (umidade s) (cfg_umidDeslig s)))"
  "lampada (automatico s) =
     ((lampada s \<or> pctLuz s < cfg_luzLigar s) \<and> \<not> cfg_luzDeslig s < pctLuz s)"
  "cfg_tempLigar (automatico s) = cfg_tempLigar s"
  "cfg_tempDeslig (automatico s) = cfg_tempDeslig s"
  "cfg_umidLigar (automatico s) = cfg_umidLigar s"
  "cfg_umidDeslig (automatico s) = cfg_umidDeslig s"
  "cfg_luzLigar (automatico s) = cfg_luzLigar s"
  "cfg_luzDeslig (automatico s) = cfg_luzDeslig s"
  "temperatura (automatico s) = temperatura s"
  "umidade (automatico s) = umidade s"
  "pctLuz (automatico s) = pctLuz s"
  "modoManual (automatico s) = modoManual s"
  "lampManual (automatico s) = lampManual s"
  "motManual (automatico s) = motManual s"
  "pin_relay_lampada (automatico s) = pin_relay_lampada s"
  "pin_relay_motor (automatico s) = pin_relay_motor s"
  "state.more (automatico s) = state.more s"
  by (simp_all add: automatico_def passo_fields)

lemma controlar_frame:
  "cfg_tempLigar (controlar s) = cfg_tempLigar s"
  "cfg_tempDeslig (controlar s) = cfg_tempDeslig s"
  "cfg_umidLigar (controlar s) = cfg_umidLigar s"
  "cfg_umidDeslig (controlar s) = cfg_umidDeslig s"
  "cfg_luzLigar (controlar s) = cfg_luzLigar s"
  "cfg_luzDeslig (controlar s) = cfg_luzDeslig s"
  "temperatura (controlar s) = temperatura s"
  "umidade (controlar s) = umidade s"
  "pctLuz (controlar s) = pctLuz s"
  "modoManual (controlar s) = modoManual s"
  "lampManual (controlar s) = lampManual s"
  "motManual (controlar s) = motManual s"
  "state.more (controlar s) = state.more s"
  by (simp_all add: controlar_def passo_fields automatico_fields)

lemma controlar_pins:
  "pin_relay_lampada (controlar s) = (if lampada (controlar s) then LOW else HIGH)"
  "pin_relay_motor (controlar s) = (if motor (controlar s) then LOW else HIGH)"
  by (simp_all add: controlar_def escreve_reles_fields)

lemma controlar_manual:
  "modoManual s \<Longrightarrow> lampada (controlar s) = lampManual s"
  "modoManual s \<Longrightarrow> motor (controlar s) = motManual s"
  by (simp_all add: controlar_def passo_fields)

lemma controlar_auto:
  "\<not> modoManual s \<Longrightarrow> motor (controlar s) =
     ((motor s \<or> flt_greater (temperatura s) (cfg_tempLigar s)
               \<or> flt_greater (umidade s) (cfg_umidLigar s))
      \<and> \<not> (flt_less (temperatura s) (cfg_tempDeslig s)
           \<and> flt_less (umidade s) (cfg_umidDeslig s)))"
  "\<not> modoManual s \<Longrightarrow> lampada (controlar s) =
     ((lampada s \<or> pctLuz s < cfg_luzLigar s) \<and> \<not> cfg_luzDeslig s < pctLuz s)"
  by (simp_all add: controlar_def passo_fields automatico_fields)

lemma controlar_actuators_idem:
  "lampada (controlar (controlar s)) = lampada (controlar s)"
  "motor (controlar (controlar s)) = motor (controlar s)"
proof -
  show "lampada (controlar (controlar s)) = lampada (controlar s)"
  proof (cases "modoManual s")
    case True
    then show ?thesis by (simp add: controlar_manual controlar_frame)
  next
    case False
    then have "\<not> modoManual (controlar s)" by (simp add: controlar_frame)
    then show ?thesis using False
      by (simp add: controlar_auto(2) controlar_frame) blast
  qed
  show "motor (controlar (controlar s)) = motor (controlar s)"
  proof (cases "modoManual s")
    case True
    then show ?thesis by (simp add: controlar_manual controlar_frame)
  next
    case False
    then have "\<not> modoManual (controlar s)" by (simp add: controlar_frame)
    then show ?thesis using False
      by (simp add: controlar_auto(1) controlar_frame) blast
  qed
qed

subsection \<open>Idempotence of the control decision\<close>

text \<open>
  Claim C9. The control decision is idempotent for every reading, every configuration
  and every mode: \<^verbatim>\<open>controlar\<close> run a second time on the state it produced changes
  nothing, and so does any number of further runs, as long as no reading, threshold or
  mode changes in between (\<^verbatim>\<open>controlar\<close> itself writes none of them). No ordering of
  the thresholds is assumed.
\<close>

theorem controlar_idempotent:
  "controlar (controlar s) = controlar s
   \<and> (controlar ^^ Suc n) s = controlar s"
proof -
  have once: "controlar (controlar t) = controlar t" for t
    by (rule state.equality)
       (simp_all add: controlar_frame controlar_pins controlar_actuators_idem)
  have "(controlar ^^ Suc n) s = controlar s"
  proof (induction n)
    case 0
    show ?case by simp
  next
    case (Suc n)
    have "(controlar ^^ Suc (Suc n)) s = controlar ((controlar ^^ Suc n) s)" by simp
    also have "\<dots> = controlar (controlar s)" by (simp only: Suc.IH)
    also have "\<dots> = controlar s" by (rule once)
    finally show ?case .
  qed
  with once show ?thesis by blast
qed

text \<open>
  With thresholds in the wrong order (on at 10, off at 50) and a reading of 30 between
  them, the first run switches the motor on and off again in one pass; the second run
  repeats the same result.
\<close>

theorem controlar_idempotent_witness:
  "controlar (controlar (boot\<lparr>cfg_tempLigar := Finite 10, cfg_tempDeslig := Finite 50,
        cfg_umidLigar := Finite 10, cfg_umidDeslig := Finite 50,
        temperatura := Finite 30, umidade := Finite 30\<rparr>))
     = controlar (boot\<lparr>cfg_tempLigar := Finite 10, cfg_tempDeslig := Finite 50,
        cfg_umidLigar := Finite 10, cfg_umidDeslig := Finite 50,
        temperatura := Finite 30, umidade := Finite 30\<rparr>)
   \<and> motor (controlar (boot\<lparr>cfg_tempLigar := Finite 10, cfg_tempDeslig := Finite 50,
        cfg_umidLigar := Finite 10, cfg_umidDeslig := Finite 50,
        temperatura := Finite 30, umidade := Finite 30\<rparr>)) = False"
  using controlar_idempotent [of "boot\<lparr>cfg_tempLigar := Finite 10,
        cfg_tempDeslig := Finite 50, cfg_umidLigar := Finite 10, cfg_umidDeslig := Finite 50,
        temperatura := Finite 30, umidade := Finite 30\<rparr>" 0]
  by (simp add: boot_def controlar_auto flt_greater_def)

subsection \<open>Comparison of floats\<close>

lemma flt_less_not_sym: "flt_less a b \<Longrightarrow> \<not> flt_less b a"
  by (cases a; cases b) auto

lemma flt_less_trans: "flt_less a b \<Longrightarrow> flt_less b c \<Longrightarrow> flt_less a c"
  by (cases a; cases b; cases c) auto

text \<open>A value above the switch-on threshold is not below a lower switch-off threshold.\<close>

lemma flt_band: "flt_less d l \<Longrightarrow> flt_greater x l \<Longrightarrow> \<not> flt_less x d"
  unfolding flt_greater_def using flt_less_trans flt_less_not_sym by blast

subsection \<open>Hysteresis of the motor\<close>

text \<open>
  Claim C1. In automatic mode, with \<^verbatim>\<open>cfg_tempDeslig < cfg_tempLigar\<close> and
  \<^verbatim>\<open>cfg_umidDeslig < cfg_umidLigar\<close>, for every reading and every previous actuator
  state: the motor goes from off to on exactly when it was off and the temperature is
  above \<^verbatim>\<open>cfg_tempLigar\<close> or the humidity above \<^verbatim>\<open>cfg_umidLigar\<close>; it goes from on
  to off exactly when it was on and the temperature is below \<^verbatim>\<open>cfg_tempDeslig\<close> and
  the humidity below \<^verbatim>\<open>cfg_umidDeslig\<close>; and it keeps its state exactly in the
  remaining cases (the dead band). The two statements of the source run in sequence, so
  the ordering of the thresholds is what keeps the second from undoing the first.
\<close>

theorem motor_hysteresis:
  assumes "\<not> modoManual s"
    and "flt_less (cfg_tempDeslig s) (cfg_tempLigar s)"
    and "flt_less (cfg_umidDeslig s) (cfg_umidLigar s)"
  shows "((\<not> motor s \<and> motor (controlar s)) =
            (\<not> motor s \<and> (flt_greater (temperatura s) (cfg_tempLigar s)
                          \<or> flt_greater (umidade s) (cfg_umidLigar s))))
       \<and> ((motor s \<and> \<not> motor (controlar s)) =
            (motor s \<and> (flt_less (temperatura s) (cfg_tempDeslig s)
                        \<and> flt_less (umidade s) (cfg_umidDeslig s))))
       \<and> ((motor (controlar s) = motor s) =
            (\<not> (\<not> motor s \<and> (flt_greater (temperatura s) (cfg_tempLigar s)
                              \<or> flt_greater (umidade s) (cfg_umidLigar s)))
           \<and> \<not> (motor s \<and> (flt_less (temperatura s) (cfg_tempDeslig s)
                          \<and> flt_less (umidade s) (cfg_umidDeslig s)))))"
proof -
  have t: "flt_greater (temperatura s) (cfg_tempLigar s)
             \<Longrightarrow> \<not> flt_less (temperatura s) (cfg_tempDeslig s)"
    using assms(2) by (rule flt_band)
  have u: "flt_greater (umidade s) (cfg_umidLigar s)
             \<Longrightarrow> \<not> flt_less (umidade s) (cfg_umidDeslig s)"
    using assms(3) by (rule flt_band)
  have m: "motor (controlar s) =
     ((motor s \<or> flt_greater (temperatura s) (cfg_tempLigar s)
               \<or> flt_greater (umidade s) (cfg_umidLigar s))
      \<and> \<not> (flt_less (temperatura s) (cfg_tempDeslig s)
           \<and> flt_less (umidade s) (cfg_umidDeslig s)))"
    using assms(1) by (rule controlar_auto)
  show ?thesis
    unfolding m using t u by blast
qed

text \<open>The default thresholds (30/27 and 70/60) with a reading of 31 degrees, 50 percent.\<close>

theorem motor_hysteresis_witness:
  "\<not> modoManual (boot\<lparr>temperatura := Finite 31, umidade := Finite 50\<rparr>)
   \<and> flt_less (cfg_tempDeslig (boot\<lparr>temperatura := Finite 31, umidade := Finite 50\<rparr>))
               (cfg_tempLigar (boot\<lparr>temperatura := Finite 31, umidade := Finite 50\<rparr>))
   \<and> flt_less (cfg_umidDeslig (boot\<lparr>temperatura := Finite 31, umidade := Finite 50\<rparr>))
               (cfg_umidLigar (boot\<lparr>temperatura := Finite 31, umidade := Finite 50\<rparr>))
   \<and> \<not> motor (boot\<lparr>temperatura := Finite 31, umidade := Finite 50\<rparr>)
   \<and> motor (controlar (boot\<lparr>temperatura := Finite 31, umidade := Finite 50\<rparr>))"
  using motor_hysteresis [of "boot\<lparr>temperatura := Finite 31, umidade := Finite 50\<rparr>"]
  by (simp add: boot_def flt_greater_def)

subsection \<open>Hysteresis of the lamp\<close>

text \<open>
  Claim C2. In automatic mode, with \<^verbatim>\<open>cfg_luzLigar < cfg_luzDeslig\<close>, for every
  reading and every previous actuator state: the lamp goes from off to on exactly when
  it was off and the light percentage is below \<^verbatim>\<open>cfg_luzLigar\<close>; it goes from on to
  off exactly when it was on and the light percentage is above \<^verbatim>\<open>cfg_luzDeslig\<close>; and
  it keeps its state exactly in the remaining cases.
\<close>

theorem lampada_hysteresis:
  assumes "\<not> modoManual s" and "cfg_luzLigar s < cfg_luzDeslig s"
  shows "((\<not> lampada s \<and> lampada (controlar s)) = (\<not> lampada s \<and> pctLuz s < cfg_luzLigar s))
       \<and> ((lampada s \<and> \<not> lampada (controlar s)) = (lampada s \<and> pctLuz s > cfg_luzDeslig s))
       \<and> ((lampada (controlar s) = lampada s) =
            (\<not> (\<not> lampada s \<and> pctLuz s < cfg_luzLigar s)
           \<and> \<not> (lampada s \<and> pctLuz s > cfg_luzDeslig s)))"
proof -
  have l: "lampada (controlar s) =
     ((lampada s \<or> pctLuz s < cfg_luzLigar s) \<and> \<not> cfg_luzDeslig s < pctLuz s)"
    using assms(1) by (rule controlar_auto)
  show ?thesis
    unfolding l using assms(2) by auto
qed

text \<open>The default thresholds (25/35) with 20 percent of light.\<close>

theorem lampada_hysteresis_witness:
  "\<not> modoManual (boot\<lparr>pctLuz := 20\<rparr>)
   \<and> cfg_luzLigar (boot\<lparr>pctLuz := 20\<rparr>) < cfg_luzDeslig (boot\<lparr>pctLuz := 20\<rparr>)
   \<and> \<not> lampada (boot\<lparr>pctLuz := 20\<rparr>)
   \<and> lampada (controlar (boot\<lparr>pctLuz := 20\<rparr>))"
  using lampada_hysteresis [of "boot\<lparr>pctLuz := 20\<rparr>"]
  by (simp add: boot_def)

subsection \<open>Manual mode\<close>

text \<open>
  Claim C3. In manual mode the control decision sets the lamp to \<^verbatim>\<open>lampManual\<close> and
  the motor to \<^verbatim>\<open>motManual\<close>, and commits exactly that to the relay pins. No
  threshold is looked at: two states in manual mode with the same overrides get the same
  actuator state and the same pin levels, whatever their readings and configurations.
\<close>

theorem controlar_modo_manual:
  assumes "modoManual s"
    and "modoManual s'" and "lampManual s' = lampManual s" and "motManual s' = motManual s"
  shows "lampada (controlar s) = lampManual s \<and> motor (controlar s) = motManual s
       \<and> pin_relay_lampada (controlar s) = (if lampManual s then LOW else HIGH)
       \<and> pin_relay_motor (controlar s) = (if motManual s then LOW else HIGH)
       \<and> lampada (controlar s') = lampada (controlar s)
       \<and> motor (controlar s') = motor (controlar s)
       \<and> pin_relay_lampada (controlar s') = pin_relay_lampada (controlar s)
       \<and> pin_relay_motor (controlar s') = pin_relay_motor (controlar s)"
  using assms by (simp add: controlar_manual controlar_pins)

text \<open>
  Lamp forced on by hand: once with the default readings, once in bright light (90
  percent, where the automatic rule would switch it off) and at 40 degrees (where the
  automatic rule would start the motor).
\<close>

theorem controlar_modo_manual_witness:
  "modoManual (boot\<lparr>modoManual := True, lampManual := True\<rparr>)
   \<and> modoManual (boot\<lparr>modoManual := True, lampManual := True, pctLuz := 90,
         temperatura := Finite 40, cfg_luzLigar := 10\<rparr>)
   \<and> lampada (controlar (boot\<lparr>modoManual := True, lampManual := True\<rparr>))
   \<and> motor (controlar (boot\<lparr>modoManual := True, lampManual := True\<rparr>)) = False
   \<and> lampada (controlar (boot\<lparr>modoManual := True, lampManual := True, pctLuz := 90,
         temperatura := Finite 40, cfg_luzLigar := 10\<rparr>))
   \<and> motor (controlar (boot\<lparr>modoManual := True, lampManual := True, pctLuz := 90,
         temperatura := Finite 40, cfg_luzLigar := 10\<rparr>)) = False"
  using controlar_modo_manual [of "boot\<lparr>modoManual := True, lampManual := True\<rparr>"
               "boot\<lparr>modoManual := True, lampManual := True, pctLuz := 90,
                 temperatura := Finite 40, cfg_luzLigar := 10\<rparr>"]
  by (simp add: boot_def)

subsection \<open>What \<^verbatim>\<open>lerSensores\<close> does to each global\<close>

lemma lerSensores_fields:
  "temperatura (lerSensores hw s) =
     (if isnan (readTemperature hw) then temperatura s else readTemperature hw)"
  "umidade (lerSensores hw s) =
     (if isnan (readHumidity hw) then umidade s else readHumidity hw)"
  "pctLuz (lerSensores hw s) = constrain (map_long (analogRead hw) 0 4095 0 100) 0 100"
  "cfg_tempLigar (lerSensores hw s) = cfg_tempLigar s"
  "cfg_tempDeslig (lerSensores hw s) = cfg_tempDeslig s"
  "cfg_umidLigar (lerSensores hw s) = cfg_umidLigar s"
  "cfg_umidDeslig (lerSensores hw s) = cfg_umidDeslig s"
  "cfg_luzLigar (lerSensores hw s) = cfg_luzLigar s"
  "cfg_luzDeslig (lerSensores hw s) = cfg_luzDeslig s"
  "lampada (lerSensores hw s) = lampada s"
  "motor (lerSensores hw s) = motor s"
  "modoManual (lerSensores hw s) = modoManual s"
  "lampManual (lerSensores hw s) = lampManual s"
  "motManual (lerSensores hw s) = motManual s"
  "pin_relay_lampada (lerSensores hw s) = pin_relay_lampada s"
  "pin_relay_motor (lerSensores hw s) = pin_relay_motor s"
  "state.more (lerSensores hw s) = state.more s"
  by (simp_all add: lerSensores_def Let_def)

lemma lerSensores_eq:
  "lerSensores hw s =
     s\<lparr>temperatura := (if isnan (readTemperature hw) then temperatura s else readTemperature hw),
       umidade := (if isnan (readHumidity hw) then umidade s else readHumidity hw),
       pctLuz := constrain (map_long (analogRead hw) 0 4095 0 100) 0 100\<rparr>"
  by (rule state.equality) (simp_all add: lerSensores_fields)


subsection \<open>The handlers, path by path\<close>

lemma handleSetMode_missing:
  "\<not> hasArg req ''mode'' \<Longrightarrow> handleSetMode L req s = (falta_mode, s)"
  by (simp add: handleSetMode_def)

lemma handleSetMode_present:
  "hasArg req ''mode'' \<Longrightarrow>
     handleSetMode L req s =
       (ok_1,
        (if toInt L (arg req ''mode'') = 1 \<and> \<not> modoManual s
         then s\<lparr>lampManual := lampada s, motManual := motor s\<rparr> else s)
        \<lparr>modoManual := (toInt L (arg req ''mode'') = 1)\<rparr>)"
  by (simp add: handleSetMode_def Let_def)

lemma handleSetMode_enter:
  assumes "hasArg req ''mode''" "toInt L (arg req ''mode'') = 1" "\<not> modoManual s"
  shows "handleSetMode L req s =
           (ok_1, s\<lparr>lampManual := lampada s, motManual := motor s, modoManual := True\<rparr>)"
  using assms by (simp add: handleSetMode_present)

lemma handleSetMode_same:
  assumes "hasArg req ''mode''" "(toInt L (arg req ''mode'') = 1) = modoManual s"
  shows "handleSetMode L req s = (ok_1, s)"
  using assms by (auto simp: handleSetMode_present)

lemma handleSetMode_leave:
  assumes "hasArg req ''mode''" "toInt L (arg req ''mode'') \<noteq> 1"
  shows "handleSetMode L req s = (ok_1, s\<lparr>modoManual := False\<rparr>)"
  using assms by (simp add: handleSetMode_present)

lemma handleSetRelay_missing:
  "\<not> hasArg req ''channel'' \<or> \<not> hasArg req ''state''
     \<Longrightarrow> handleSetRelay L req s = (falta_channel_state, s)"
  by (simp add: handleSetRelay_def)

lemma handleSetRelay_auto:
  "hasArg req ''channel'' \<Longrightarrow> hasArg req ''state'' \<Longrightarrow> \<not> modoManual s
     \<Longrightarrow> handleSetRelay L req s = (modo_automatico_ativo, s)"
  by (simp add: handleSetRelay_def)

lemma handleSetRelay_manual:
  assumes "hasArg req ''channel''" "hasArg req ''state''" "modoManual s"
  shows "handleSetRelay L req s =
     (ok_1, controlar
        (s\<lparr>lampManual := (if arg req ''channel'' = ''lamp''
                           then toInt L (arg req ''state'') = 1 else lampManual s),
           motManual := (if arg req ''channel'' = ''motor''
                          then toInt L (arg req ''state'') = 1 else motManual s)\<rparr>))"
  using assms by (simp add: handleSetRelay_def Let_def)

lemma handleSetRelay_unknown:
  assumes "hasArg req ''channel''" "hasArg req ''state''" "modoManual s"
    and "arg req ''channel'' \<noteq> ''lamp''" "arg req ''channel'' \<noteq> ''motor''"
  shows "handleSetRelay L req s = (ok_1, controlar s)"
  using assms by (simp add: handleSetRelay_def Let_def)

subsection \<open>Invariants of the running system\<close>

text \<open>
  \<^verbatim>\<open>controlar\<close> establishes \<^const>\<open>consistente\<close> from any state, every handler keeps
  it, and so it holds after every history. In a consistent state in manual mode
  \<^verbatim>\<open>controlar\<close> has nothing left to change.
\<close>

lemma consistente_controlar: "consistente (controlar s)"
  by (simp add: consistente_def controlar_pins controlar_manual controlar_frame)

lemma controlar_fixo:
  assumes "consistente s" "modoManual s"
  shows "controlar s = s"
  using assms
  by (intro state.equality)
     (simp_all add: consistente_def controlar_frame controlar_pins controlar_manual)


text \<open>\<^verbatim>\<open>handleSetConfig\<close> as one record update.\<close>

lemma handleSetConfig_eq:
  "handleSetConfig L req s =
     (ok_1,
      s\<lparr>cfg_tempLigar := (if hasArg req ''tempLigar''
                            then toFloat L (arg req ''tempLigar'') else cfg_tempLigar s),
        cfg_tempDeslig := (if hasArg req ''tempDeslig''
                            then toFloat L (arg req ''tempDeslig'') else cfg_tempDeslig s),
        cfg_umidLigar := (if hasArg req ''umidLigar''
                            then toFloat L (arg req ''umidLigar'') else cfg_umidLigar s),
        cfg_umidDeslig := (if hasArg req ''umidDeslig''
                            then toFloat L (arg req ''umidDeslig'') else cfg_umidDeslig s),
        cfg_luzLigar := (if hasArg req ''luzLigar''
                            then toInt L (arg req ''luzLigar'') else cfg_luzLigar s),
        cfg_luzDeslig := (if hasArg req ''luzDeslig''
                            then toInt L (arg req ''luzDeslig'') else cfg_luzDeslig s)\<rparr>)"
proof -
  have u1: "(if c then t\<lparr>cfg_tempLigar := v\<rparr> else t)
              = t\<lparr>cfg_tempLigar := (if c then v else cfg_tempLigar t)\<rparr>" for c v and t :: state
    by simp
  have u2: "(if c then t\<lparr>cfg_tempDeslig := v\<rparr> else t)
              = t\<lparr>cfg_tempDeslig := (if c then v else cfg_tempDeslig t)\<rparr>" for c v and t :: state
    by simp
  have u3: "(if c then t\<lparr>cfg_umidLigar := v\<rparr> else t)
              = t\<lparr>cfg_umidLigar := (if c then v else cfg_umidLigar t)\<rparr>" for c v and t :: state
    by simp
  have u4: "(if c then t\<lparr>cfg_umidDeslig := v\<rparr> else t)
              = t\<lparr>cfg_umidDeslig := (if c then v else cfg_umidDeslig t)\<rparr>" for c v and t :: state
    by simp
  have u5: "(if c then t\<lparr>cfg_luzLigar := w\<rparr> else t)
              = t\<lparr>cfg_luzLigar := (if c then w else cfg_luzLigar t)\<rparr>" for c w and t :: state
    by simp
  have u6: "(if c then t\<lparr>cfg_luzDeslig := w\<rparr> else t)
              = t\<lparr>cfg_luzDeslig := (if c then w else cfg_luzDeslig t)\<rparr>" for c w and t :: state
    by simp
  show ?thesis
    unfolding handleSetConfig_def Let_def u1 u2 u3 u4 u5 u6 by simp
qed

lemma handleSetConfig_frame:
  "temperatura (snd (handleSetConfig L req s)) = temperatura s"
  "umidade (snd (handleSetConfig L req s)) = umidade s"
  "pctLuz (snd (handleSetConfig L req s)) = pctLuz s"
  "lampada (snd (handleSetConfig L req s)) = lampada s"
  "motor (snd (handleSetConfig L req s)) = motor s"
  "modoManual (snd (handleSetConfig L req s)) = modoManual s"
  "lampManual (snd (handleSetConfig L req s)) = lampManual s"
  "motManual (snd (handleSetConfig L req s)) = motManual s"
  "pin_relay_lampada (snd (handleSetConfig L req s)) = pin_relay_lampada s"
  "pin_relay_motor (snd (handleSetConfig L req s)) = pin_relay_motor s"
  by (simp_all add: handleSetConfig_eq)


lemma consistente_handleSetMode:
  assumes "consistente s"
  shows "consistente (snd (handleSetMode L req s))"
proof (cases "hasArg req ''mode''")
  case False
  then show ?thesis using assms by (simp add: handleSetMode_missing)
next
  case True
  show ?thesis
  proof (cases "toInt L (arg req ''mode'') = 1")
    case False
    with True assms show ?thesis
      by (simp add: handleSetMode_leave consistente_def)
  next
    case um: True
    show ?thesis
    proof (cases "modoManual s")
      case True
      with um \<open>hasArg req ''mode''\<close> assms show ?thesis
        by (simp add: handleSetMode_same)
    next
      case False
      with um \<open>hasArg req ''mode''\<close> assms show ?thesis
        by (simp add: handleSetMode_enter consistente_def)
    qed
  qed
qed

lemma consistente_handleSetRelay:
  assumes "consistente s"
  shows "consistente (snd (handleSetRelay L req s))"
proof (cases "hasArg req ''channel'' \<and> hasArg req ''state''")
  case False
  then show ?thesis using assms by (auto simp: handleSetRelay_missing)
next
  case True
  then show ?thesis using assms
    by (cases "modoManual s")
       (simp_all add: handleSetRelay_manual handleSetRelay_auto consistente_controlar)
qed

lemma consistente_handleSetConfig:
  "consistente s \<Longrightarrow> consistente (snd (handleSetConfig L req s))"
  by (simp add: consistente_def handleSetConfig_frame)

lemma consistente_step: "consistente s \<Longrightarrow> consistente (step L s e)"
  by (cases e)
     (simp_all add: tick_def consistente_controlar handleGetData_def
        consistente_handleSetMode consistente_handleSetRelay consistente_handleSetConfig)

lemma consistente_foldl:
  "consistente s \<Longrightarrow> consistente (foldl (step L) s evs)"
  by (induction evs arbitrary: s) (simp_all add: consistente_step)

lemma consistente_run: "consistente (run L hw evs)"
  unfolding run_def setup_sketch_def tick_def
  by (rule consistente_foldl) (rule consistente_controlar)

text \<open>The stored temperature and humidity are never NaN.\<close>

lemma leitura_handleSetMode:
  "temperatura (snd (handleSetMode L req s)) = temperatura s"
  "umidade (snd (handleSetMode L req s)) = umidade s"
  by (simp_all add: handleSetMode_def Let_def)

lemma leitura_handleSetRelay:
  "temperatura (snd (handleSetRelay L req s)) = temperatura s"
  "umidade (snd (handleSetRelay L req s)) = umidade s"
  by (simp_all add: handleSetRelay_def Let_def controlar_frame)

lemma leitura_valida_step:
  assumes "\<not> isnan (temperatura s) \<and> \<not> isnan (umidade s)"
  shows "\<not> isnan (temperatura (step L s e)) \<and> \<not> isnan (umidade (step L s e))"
  using assms
  by (cases e)
     (simp_all add: tick_def controlar_frame lerSensores_fields handleGetData_def
        leitura_handleSetMode leitura_handleSetRelay handleSetConfig_frame)

lemma leitura_valida_foldl:
  "\<not> isnan (temperatura s) \<and> \<not> isnan (umidade s) \<Longrightarrow>
     \<not> isnan (temperatura (foldl (step L) s evs)) \<and> \<not> isnan (umidade (foldl (step L) s evs))"
proof (induction evs arbitrary: s)
  case Nil
  then show ?case by simp
next
  case (Cons e evs)
  have "\<not> isnan (temperatura (step L s e)) \<and> \<not> isnan (umidade (step L s e))"
    using Cons.prems by (rule leitura_valida_step)
  then show ?case using Cons.IH by simp
qed

lemma leitura_valida_run:
  "\<not> isnan (temperatura (run L hw evs)) \<and> \<not> isnan (umidade (run L hw evs))"
  unfolding run_def
  by (rule leitura_valida_foldl)
     (simp add: setup_sketch_def tick_def controlar_frame lerSensores_fields boot_def)

subsection \<open>Facts about the example inputs\<close>

lemma atol_exemplos:
  "atol ''1'' = 1" "atol ''0'' = 0" "atol ''2'' = 2" "atol ''-1'' = -1" "atol ''abc'' = 0"
  "atol ''32'' = 32"
  by (simp_all add: atol_def isspace_def isdigit_def)

lemma boot_fields:
  "cfg_tempLigar boot = Finite 30" "cfg_tempDeslig boot = Finite 27"
  "cfg_umidLigar boot = Finite 70" "cfg_umidDeslig boot = Finite 60"
  "cfg_luzLigar boot = 25" "cfg_luzDeslig boot = 35"
  "temperatura boot = Finite 0" "umidade boot = Finite 0" "pctLuz boot = 0"
  "lampada boot = False" "motor boot = False"
  "modoManual boot = False" "lampManual boot = False" "motManual boot = False"
  "pin_relay_lampada boot = HIGH" "pin_relay_motor boot = HIGH"
  by (simp_all add: boot_def)

lemma arduino_fields:
  "toInt arduino = atol" "toFloat arduino = (\<lambda>str. Finite (of_int (atol str)))"
  by (simp_all add: arduino_def)

lemma snapshot_fields:
  "json_field (fst (handleGetData s)) ''lampada'' = Some (bit01 (lampada s))"
  "json_field (fst (handleGetData s)) ''motor'' = Some (bit01 (motor s))"
  "json_field (fst (handleGetData s)) ''modoManual'' = Some (bit01 (modoManual s))"
  "snd (handleGetData s) = s"
  by (simp_all add: handleGetData_def json_field_def)

lemma setup_noite:
  "lampada (setup_sketch noite) = True" "motor (setup_sketch noite) = False"
  "modoManual (setup_sketch noite) = False"
  "temperatura (setup_sketch noite) = Finite 25" "umidade (setup_sketch noite) = Finite 50"
  "pctLuz (setup_sketch noite) = 0"
  by (simp_all add: setup_sketch_def tick_def controlar_auto controlar_frame
        lerSensores_fields boot_fields noite_def constrain_def map_long_def
        signed_divide_int_def flt_greater_def)

subsection \<open>Entering manual mode\<close>

text \<open>
  Claim C4. Let the request carry a \<^verbatim>\<open>mode\<close> field. From automatic mode, a request
  for manual mode copies the current actuator state into \<^verbatim>\<open>lampManual\<close> and
  \<^verbatim>\<open>motManual\<close> at that instant and touches neither the actuator flags nor the
  pins, so the next control decision, now in manual mode, leaves lamp and motor as they
  were and writes the matching levels to the relays. A request whose target is the
  current mode changes nothing at all, and any request repeated gives the same answer
  and the same state as the first time.
\<close>

theorem modo_manual_captura:
  assumes "hasArg req ''mode''"
  shows "(\<not> modoManual s \<and> toInt L (arg req ''mode'') = 1 \<longrightarrow>
             modoManual (snd (handleSetMode L req s))
             \<and> lampManual (snd (handleSetMode L req s)) = lampada s
             \<and> motManual (snd (handleSetMode L req s)) = motor s
             \<and> lampada (snd (handleSetMode L req s)) = lampada s
             \<and> motor (snd (handleSetMode L req s)) = motor s
             \<and> pin_relay_lampada (snd (handleSetMode L req s)) = pin_relay_lampada s
             \<and> pin_relay_motor (snd (handleSetMode L req s)) = pin_relay_motor s
             \<and> lampada (controlar (snd (handleSetMode L req s))) = lampada s
             \<and> motor (controlar (snd (handleSetMode L req s))) = motor s
             \<and> pin_relay_lampada (controlar (snd (handleSetMode L req s)))
                 = (if lampada s then LOW else HIGH)
             \<and> pin_relay_motor (controlar (snd (handleSetMode L req s)))
                 = (if motor s then LOW else HIGH))
       \<and> ((toInt L (arg req ''mode'') = 1) = modoManual s \<longrightarrow>
             handleSetMode L req s = (ok_1, s))
       \<and> handleSetMode L req (snd (handleSetMode L req s)) = handleSetMode L req s"
proof -
  have a: "modoManual (snd (handleSetMode L req s))
             \<and> lampManual (snd (handleSetMode L req s)) = lampada s
             \<and> motManual (snd (handleSetMode L req s)) = motor s
             \<and> lampada (snd (handleSetMode L req s)) = lampada s
             \<and> motor (snd (handleSetMode L req s)) = motor s
             \<and> pin_relay_lampada (snd (handleSetMode L req s)) = pin_relay_lampada s
             \<and> pin_relay_motor (snd (handleSetMode L req s)) = pin_relay_motor s
             \<and> lampada (controlar (snd (handleSetMode L req s))) = lampada s
             \<and> motor (controlar (snd (handleSetMode L req s))) = motor s
             \<and> pin_relay_lampada (controlar (snd (handleSetMode L req s)))
                 = (if lampada s then LOW else HIGH)
             \<and> pin_relay_motor (controlar (snd (handleSetMode L req s)))
                 = (if motor s then LOW else HIGH)"
    if "\<not> modoManual s" "toInt L (arg req ''mode'') = 1"
    using that assms
    by (simp add: handleSetMode_enter controlar_manual controlar_pins)
  have b: "handleSetMode L req s = (ok_1, s)"
    if "(toInt L (arg req ''mode'') = 1) = modoManual s"
    using assms that by (rule handleSetMode_same)
  have m: "modoManual (snd (handleSetMode L req s)) = (toInt L (arg req ''mode'') = 1)"
    using assms by (simp add: handleSetMode_present)
  have f: "fst (handleSetMode L req s) = ok_1"
    using assms by (simp add: handleSetMode_present)
  have "handleSetMode L req (snd (handleSetMode L req s)) = (ok_1, snd (handleSetMode L req s))"
    using assms m by (simp add: handleSetMode_same)
  then have c: "handleSetMode L req (snd (handleSetMode L req s)) = handleSetMode L req s"
    using f by (simp add: prod_eq_iff)
  show ?thesis using a b c by blast
qed

text \<open>
  After a start at night the lamp is on and the motor off. Switching to manual keeps
  both; asking for automatic mode while in automatic mode changes nothing.
\<close>

theorem modo_manual_captura_witness:
  "hasArg [''mode'' \<mapsto> ''1''] ''mode''
   \<and> \<not> modoManual (setup_sketch noite)
   \<and> toInt arduino (arg [''mode'' \<mapsto> ''1''] ''mode'') = 1
   \<and> lampada (setup_sketch noite)
   \<and> \<not> motor (setup_sketch noite)
   \<and> lampManual (snd (handleSetMode arduino [''mode'' \<mapsto> ''1''] (setup_sketch noite)))
   \<and> \<not> motManual (snd (handleSetMode arduino [''mode'' \<mapsto> ''1''] (setup_sketch noite)))
   \<and> lampada (controlar (snd (handleSetMode arduino [''mode'' \<mapsto> ''1''] (setup_sketch noite))))
   \<and> \<not> motor (controlar (snd (handleSetMode arduino [''mode'' \<mapsto> ''1''] (setup_sketch noite))))
   \<and> (toInt arduino (arg [''mode'' \<mapsto> ''0''] ''mode'') = 1) = modoManual (setup_sketch noite)
   \<and> snd (handleSetMode arduino [''mode'' \<mapsto> ''0''] (setup_sketch noite)) = setup_sketch noite"
  using modo_manual_captura [of "[''mode'' \<mapsto> ''1'']" "setup_sketch noite" arduino]
        modo_manual_captura [of "[''mode'' \<mapsto> ''0'']" "setup_sketch noite" arduino]
  by (simp add: hasArg_def arg_def arduino_fields atol_exemplos setup_noite)

subsection \<open>Manual override needs manual mode\<close>

text \<open>
  Claim C5. A relay request that carries both \<^verbatim>\<open>channel\<close> and \<^verbatim>\<open>state\<close> is
  answered with 403 while the mode is automatic, and the whole state stays as it was.
  The same request sent after a switch to manual mode is answered with 200: the
  override of the named channel becomes (state = 1), the other override keeps the value
  captured on entry, \<^verbatim>\<open>controlar\<close> runs inside the request, so actuator flags and
  relay pins carry the overrides when the handler returns, and the snapshot of
  \<^verbatim>\<open>handleGetData\<close> taken next reports them.
\<close>

theorem relay_gating:
  assumes "hasArg req ''channel''" and "hasArg req ''state''" and "\<not> modoManual s"
    and "hasArg m ''mode''" and "toInt L (arg m ''mode'') = 1"
  shows "handleSetRelay L req s = (modo_automatico_ativo, s)
       \<and> status (fst (handleSetRelay L req s)) = 403
       \<and> (let s1 = snd (handleSetMode L m s);
               r = handleSetRelay L req s1;
               s2 = snd r
           in fst r = ok_1
            \<and> status (fst r) = 200
            \<and> modoManual s2
            \<and> lampManual s2 = (if arg req ''channel'' = ''lamp''
                                then toInt L (arg req ''state'') = 1 else lampada s)
            \<and> motManual s2 = (if arg req ''channel'' = ''motor''
                               then toInt L (arg req ''state'') = 1 else motor s)
            \<and> lampada s2 = lampManual s2
            \<and> motor s2 = motManual s2
            \<and> pin_relay_lampada s2 = (if lampManual s2 then LOW else HIGH)
            \<and> pin_relay_motor s2 = (if motManual s2 then LOW else HIGH)
            \<and> json_field (fst (handleGetData s2)) ''lampada'' = Some (bit01 (lampManual s2))
            \<and> json_field (fst (handleGetData s2)) ''motor'' = Some (bit01 (motManual s2))
            \<and> snd (handleGetData s2) = s2)"
proof -
  have rej: "handleSetRelay L req s = (modo_automatico_ativo, s)"
    using assms(1-3) by (rule handleSetRelay_auto)
  define s1 where "s1 = s\<lparr>lampManual := lampada s, motManual := motor s, modoManual := True\<rparr>"
  have m1: "snd (handleSetMode L m s) = s1"
    using assms(3-5) by (simp add: handleSetMode_enter s1_def)
  have man: "modoManual s1" by (simp add: s1_def)
  define s1' where "s1' = s1\<lparr>lampManual := (if arg req ''channel'' = ''lamp''
                           then toInt L (arg req ''state'') = 1 else lampManual s1),
           motManual := (if arg req ''channel'' = ''motor''
                          then toInt L (arg req ''state'') = 1 else motManual s1)\<rparr>"
  have r: "handleSetRelay L req s1 = (ok_1, controlar s1')"
    unfolding s1'_def using assms(1,2) man by (rule handleSetRelay_manual)
  have man': "modoManual s1'" by (simp add: s1'_def s1_def)
  have ov: "lampManual s1' = (if arg req ''channel'' = ''lamp''
                                then toInt L (arg req ''state'') = 1 else lampada s)"
       "motManual s1' = (if arg req ''channel'' = ''motor''
                               then toInt L (arg req ''state'') = 1 else motor s)"
    by (simp_all add: s1'_def s1_def)
  have c: "lampada (controlar s1') = lampManual s1'" "motor (controlar s1') = motManual s1'"
    using man' by (simp_all add: controlar_manual)
  show ?thesis
    unfolding Let_def m1 r
    using rej c ov man'
    by (simp add: controlar_frame controlar_pins snapshot_fields
          modo_automatico_ativo_def ok_1_def)
qed

text \<open>Lamp on by hand, from the start-up state: refused in automatic, applied in manual.\<close>

theorem relay_gating_witness:
  "hasArg [''channel'' \<mapsto> ''lamp'', ''state'' \<mapsto> ''1''] ''channel''
   \<and> hasArg [''channel'' \<mapsto> ''lamp'', ''state'' \<mapsto> ''1''] ''state''
   \<and> \<not> modoManual boot
   \<and> hasArg [''mode'' \<mapsto> ''1''] ''mode''
   \<and> toInt arduino (arg [''mode'' \<mapsto> ''1''] ''mode'') = 1
   \<and> status (fst (handleSetRelay arduino [''channel'' \<mapsto> ''lamp'', ''state'' \<mapsto> ''1''] boot)) = 403
   \<and> snd (handleSetRelay arduino [''channel'' \<mapsto> ''lamp'', ''state'' \<mapsto> ''1''] boot) = boot
   \<and> lampada (snd (handleSetRelay arduino [''channel'' \<mapsto> ''lamp'', ''state'' \<mapsto> ''1'']
                 (snd (handleSetMode arduino [''mode'' \<mapsto> ''1''] boot))))
   \<and> json_field (fst (handleGetData
         (snd (handleSetRelay arduino [''channel'' \<mapsto> ''lamp'', ''state'' \<mapsto> ''1'']
                 (snd (handleSetMode arduino [''mode'' \<mapsto> ''1''] boot)))))) ''lampada''
       = Some (JInt 1)"
  using relay_gating [of "[''channel'' \<mapsto> ''lamp'', ''state'' \<mapsto> ''1'']" boot "[''mode'' \<mapsto> ''1'']" arduino]
  by (simp add: hasArg_def arg_def arduino_fields atol_exemplos boot_fields bit01_def
        modo_automatico_ativo_def Let_def)

subsection \<open>An unknown channel\<close>

text \<open>
  The source has no branch for a channel other than \<^verbatim>\<open>lamp\<close> and \<^verbatim>\<open>motor\<close>: in
  manual mode the channel \<^verbatim>\<open>fan\<close> is answered with 200, not with an error.
\<close>

theorem canal_desconhecido_sem_erro:
  "modoManual (run arduino noite [SetMode [''mode'' \<mapsto> ''1'']])
   \<and> hasArg [''channel'' \<mapsto> ''fan'', ''state'' \<mapsto> ''1''] ''channel''
   \<and> hasArg [''channel'' \<mapsto> ''fan'', ''state'' \<mapsto> ''1''] ''state''
   \<and> arg [''channel'' \<mapsto> ''fan'', ''state'' \<mapsto> ''1''] ''channel'' \<noteq> ''lamp''
   \<and> arg [''channel'' \<mapsto> ''fan'', ''state'' \<mapsto> ''1''] ''channel'' \<noteq> ''motor''
   \<and> \<not> is_error (fst (handleSetRelay arduino [''channel'' \<mapsto> ''fan'', ''state'' \<mapsto> ''1'']
                        (run arduino noite [SetMode [''mode'' \<mapsto> ''1'']])))"
proof -
  have man: "modoManual (run arduino noite [SetMode [''mode'' \<mapsto> ''1'']])"
    by (simp add: run_def handleSetMode_present hasArg_def arg_def arduino_fields atol_exemplos)
  have args: "hasArg [''channel'' \<mapsto> ''fan'', ''state'' \<mapsto> ''1''] ''channel''"
    "hasArg [''channel'' \<mapsto> ''fan'', ''state'' \<mapsto> ''1''] ''state''"
    "arg [''channel'' \<mapsto> ''fan'', ''state'' \<mapsto> ''1''] ''channel'' \<noteq> ''lamp''"
    "arg [''channel'' \<mapsto> ''fan'', ''state'' \<mapsto> ''1''] ''channel'' \<noteq> ''motor''"
    by (simp_all add: hasArg_def arg_def)
  have "fst (handleSetRelay arduino [''channel'' \<mapsto> ''fan'', ''state'' \<mapsto> ''1'']
               (run arduino noite [SetMode [''mode'' \<mapsto> ''1'']])) = ok_1"
    using args man by (simp add: handleSetRelay_unknown)
  then have "\<not> is_error (fst (handleSetRelay arduino [''channel'' \<mapsto> ''fan'', ''state'' \<mapsto> ''1'']
                        (run arduino noite [SetMode [''mode'' \<mapsto> ''1'']])))"
    by (simp add: is_error_def ok_1_def)
  with man args show ?thesis by blast
qed

text \<open>
  Claim C6, as the code has it. In manual mode a relay request with both fields whose
  channel is neither \<^verbatim>\<open>lamp\<close> nor \<^verbatim>\<open>motor\<close> is answered with 200 and
  the body \<^verbatim>\<open>ok:1\<close>; no error is signalled. Both manual overrides keep their values. The
  handler still runs \<^verbatim>\<open>controlar\<close>, which sets the actuators to those unchanged
  overrides; in every state the system reaches by start-up, polls and requests the
  actuators already equal them, so there the request changes no part of the state.
\<close>

theorem canal_desconhecido_ignorado:
  assumes "modoManual s" and "hasArg req ''channel''" and "hasArg req ''state''"
    and "arg req ''channel'' \<noteq> ''lamp''" and "arg req ''channel'' \<noteq> ''motor''"
  shows "handleSetRelay L req s = (ok_1, controlar s)
       \<and> status (fst (handleSetRelay L req s)) = 200
       \<and> lampManual (snd (handleSetRelay L req s)) = lampManual s
       \<and> motManual (snd (handleSetRelay L req s)) = motManual s
       \<and> lampada (snd (handleSetRelay L req s)) = lampManual s
       \<and> motor (snd (handleSetRelay L req s)) = motManual s
       \<and> (s = run L hw evs \<longrightarrow> snd (handleSetRelay L req s) = s)"
proof -
  have r: "handleSetRelay L req s = (ok_1, controlar s)"
    using assms(2,3,1,4,5) by (rule handleSetRelay_unknown)
  have parado: "controlar s = s" if "s = run L hw evs"
  proof -
    have "consistente s" unfolding that by (rule consistente_run)
    then show ?thesis using assms(1) by (rule controlar_fixo)
  qed
  show ?thesis
    unfolding r using assms(1) parado
    by (simp add: controlar_frame controlar_manual ok_1_def)
qed

text \<open>The channel \<^verbatim>\<open>fan\<close>, after a start at night and a switch to manual mode.\<close>

theorem canal_desconhecido_ignorado_witness:
  "modoManual (run arduino noite [SetMode [''mode'' \<mapsto> ''1'']])
   \<and> hasArg [''channel'' \<mapsto> ''fan'', ''state'' \<mapsto> ''1''] ''channel''
   \<and> hasArg [''channel'' \<mapsto> ''fan'', ''state'' \<mapsto> ''1''] ''state''
   \<and> arg [''channel'' \<mapsto> ''fan'', ''state'' \<mapsto> ''1''] ''channel'' \<noteq> ''lamp''
   \<and> arg [''channel'' \<mapsto> ''fan'', ''state'' \<mapsto> ''1''] ''channel'' \<noteq> ''motor''
   \<and> status (fst (handleSetRelay arduino [''channel'' \<mapsto> ''fan'', ''state'' \<mapsto> ''1'']
                        (run arduino noite [SetMode [''mode'' \<mapsto> ''1'']]))) = 200
   \<and> snd (handleSetRelay arduino [''channel'' \<mapsto> ''fan'', ''state'' \<mapsto> ''1'']
                        (run arduino noite [SetMode [''mode'' \<mapsto> ''1'']]))
       = run arduino noite [SetMode [''mode'' \<mapsto> ''1'']]"
proof -
  have man: "modoManual (run arduino noite [SetMode [''mode'' \<mapsto> ''1'']])"
    by (simp add: run_def handleSetMode_present hasArg_def arg_def arduino_fields atol_exemplos)
  have args: "hasArg [''channel'' \<mapsto> ''fan'', ''state'' \<mapsto> ''1''] ''channel''"
    "hasArg [''channel'' \<mapsto> ''fan'', ''state'' \<mapsto> ''1''] ''state''"
    "arg [''channel'' \<mapsto> ''fan'', ''state'' \<mapsto> ''1''] ''channel'' \<noteq> ''lamp''"
    "arg [''channel'' \<mapsto> ''fan'', ''state'' \<mapsto> ''1''] ''channel'' \<noteq> ''motor''"
    by (simp_all add: hasArg_def arg_def)
  note w = canal_desconhecido_ignorado [OF man args, of arduino noite "[SetMode [''mode'' \<mapsto> ''1'']]"]
  from w have a: "status (fst (handleSetRelay arduino [''channel'' \<mapsto> ''fan'', ''state'' \<mapsto> ''1'']
                        (run arduino noite [SetMode [''mode'' \<mapsto> ''1'']]))) = 200"
    by blast
  from w have b: "snd (handleSetRelay arduino [''channel'' \<mapsto> ''fan'', ''state'' \<mapsto> ''1'']
                        (run arduino noite [SetMode [''mode'' \<mapsto> ''1'']]))
       = run arduino noite [SetMode [''mode'' \<mapsto> ''1'']]"
    by blast
  from man args a b show ?thesis by blast
qed

subsection \<open>Partial update of the configuration\<close>

text \<open>
  Claim C7. \<^verbatim>\<open>handleSetConfig\<close> overwrites each of the six thresholds whose field
  is present in the request with the converted value of that field and leaves each
  threshold whose field is absent as it was. Nothing else changes: reading, actuator
  flags, mode, manual overrides and relay pins keep their values. The answer is always
  200.
\<close>

theorem config_atualizacao_parcial:
  "handleSetConfig L req s =
     (ok_1,
      s\<lparr>cfg_tempLigar := (if hasArg req ''tempLigar''
                            then toFloat L (arg req ''tempLigar'') else cfg_tempLigar s),
        cfg_tempDeslig := (if hasArg req ''tempDeslig''
                            then toFloat L (arg req ''tempDeslig'') else cfg_tempDeslig s),
        cfg_umidLigar := (if hasArg req ''umidLigar''
                            then toFloat L (arg req ''umidLigar'') else cfg_umidLigar s),
        cfg_umidDeslig := (if hasArg req ''umidDeslig''
                            then toFloat L (arg req ''umidDeslig'') else cfg_umidDeslig s),
        cfg_luzLigar := (if hasArg req ''luzLigar''
                            then toInt L (arg req ''luzLigar'') else cfg_luzLigar s),
        cfg_luzDeslig := (if hasArg req ''luzDeslig''
                            then toInt L (arg req ''luzDeslig'') else cfg_luzDeslig s)\<rparr>)
   \<and> temperatura (snd (handleSetConfig L req s)) = temperatura s
   \<and> umidade (snd (handleSetConfig L req s)) = umidade s
   \<and> pctLuz (snd (handleSetConfig L req s)) = pctLuz s
   \<and> lampada (snd (handleSetConfig L req s)) = lampada s
   \<and> motor (snd (handleSetConfig L req s)) = motor s
   \<and> modoManual (snd (handleSetConfig L req s)) = modoManual s
   \<and> lampManual (snd (handleSetConfig L req s)) = lampManual s
   \<and> motManual (snd (handleSetConfig L req s)) = motManual s
   \<and> pin_relay_lampada (snd (handleSetConfig L req s)) = pin_relay_lampada s
   \<and> pin_relay_motor (snd (handleSetConfig L req s)) = pin_relay_motor s"
  using handleSetConfig_eq [of L req s] handleSetConfig_frame [of L req s]
  by (intro conjI) assumption+

text \<open>Only \<^verbatim>\<open>tempLigar=32\<close>: that threshold becomes 32, the other five stay.\<close>

theorem config_atualizacao_parcial_witness:
  "handleSetConfig arduino [''tempLigar'' \<mapsto> ''32''] boot
     = (ok_1, boot\<lparr>cfg_tempLigar := Finite 32\<rparr>)"
proof -
  have e: "boot\<lparr>cfg_tempLigar := Finite 32, cfg_tempDeslig := Finite 27,
              cfg_umidLigar := Finite 70, cfg_umidDeslig := Finite 60,
              cfg_luzLigar := 25, cfg_luzDeslig := 35\<rparr> = boot\<lparr>cfg_tempLigar := Finite 32\<rparr>"
    by (simp add: boot_def)
  from config_atualizacao_parcial [of arduino "[''tempLigar'' \<mapsto> ''32'']" boot] show ?thesis
    by (simp add: hasArg_def arg_def arduino_fields atol_exemplos boot_fields e)
qed

subsection \<open>A failed sensor read\<close>

text \<open>
  Claim C8. In a poll, a temperature or humidity read that is NaN leaves the stored
  value as it was, a read that is not NaN replaces it, and the light percentage is
  always replaced by the new reading, each independently of the others. The tick goes
  on to the control decision whatever was read: it is \<^verbatim>\<open>controlar\<close> applied to the
  state with exactly those three values, and it keeps them. The stored temperature and
  humidity are never NaN, after any history and after one more tick, so the value kept
  on a fault is the last valid one.
\<close>

theorem sensor_falha_retem:
  "temperatura (lerSensores hw s) =
     (if isnan (readTemperature hw) then temperatura s else readTemperature hw)
   \<and> umidade (lerSensores hw s) =
     (if isnan (readHumidity hw) then umidade s else readHumidity hw)
   \<and> pctLuz (lerSensores hw s) = constrain (map_long (analogRead hw) 0 4095 0 100) 0 100
   \<and> tick hw s = controlar
        (s\<lparr>temperatura := (if isnan (readTemperature hw) then temperatura s
                            else readTemperature hw),
           umidade := (if isnan (readHumidity hw) then umidade s else readHumidity hw),
           pctLuz := constrain (map_long (analogRead hw) 0 4095 0 100) 0 100\<rparr>)
   \<and> temperatura (tick hw s) = temperatura (lerSensores hw s)
   \<and> umidade (tick hw s) = umidade (lerSensores hw s)
   \<and> pctLuz (tick hw s) = pctLuz (lerSensores hw s)
   \<and> \<not> isnan (temperatura (run L hw0 evs))
   \<and> \<not> isnan (umidade (run L hw0 evs))
   \<and> \<not> isnan (temperatura (tick hw (run L hw0 evs)))
   \<and> \<not> isnan (umidade (tick hw (run L hw0 evs)))"
proof -
  have v: "\<not> isnan (temperatura (run L hw0 evs))" "\<not> isnan (umidade (run L hw0 evs))"
    using leitura_valida_run [of L hw0 evs] by simp_all
  have t: "tick hw (run L hw0 evs) = run L hw0 (evs @ [Tick hw])"
    by (simp add: run_def)
  have v': "\<not> isnan (temperatura (tick hw (run L hw0 evs)))"
    "\<not> isnan (umidade (tick hw (run L hw0 evs)))"
    unfolding t using leitura_valida_run [of L hw0 "evs @ [Tick hw]"] by simp_all
  have k: "tick hw s = controlar
        (s\<lparr>temperatura := (if isnan (readTemperature hw) then temperatura s
                            else readTemperature hw),
           umidade := (if isnan (readHumidity hw) then umidade s else readHumidity hw),
           pctLuz := constrain (map_long (analogRead hw) 0 4095 0 100) 0 100\<rparr>)"
    unfolding tick_def by (simp only: lerSensores_eq)
  show ?thesis
    using v v' k
    by (simp add: lerSensores_fields tick_def controlar_frame)
qed

text \<open>
  A poll with a failed humidity read after a start at 50 percent: humidity stays at 50,
  temperature becomes 28, light becomes 50 (ADC count 2048).
\<close>

theorem sensor_falha_retem_witness:
  "isnan (readHumidity falha_umidade)
   \<and> umidade (setup_sketch noite) = Finite 50
   \<and> umidade (lerSensores falha_umidade (setup_sketch noite)) = Finite 50
   \<and> temperatura (lerSensores falha_umidade (setup_sketch noite)) = Finite 28
   \<and> pctLuz (lerSensores falha_umidade (setup_sketch noite)) = 50
   \<and> umidade (tick falha_umidade (setup_sketch noite)) = Finite 50
   \<and> temperatura (tick falha_umidade (setup_sketch noite)) = Finite 28
   \<and> pctLuz (tick falha_umidade (setup_sketch noite)) = 50"
  using sensor_falha_retem [of falha_umidade "setup_sketch noite" arduino noite "[]"]
  by (simp add: falha_umidade_def setup_noite constrain_def map_long_def signed_divide_int_def
        controlar_frame)

subsection \<open>Which requests select manual mode\<close>

text \<open>
  Claim C10. When the \<^verbatim>\<open>mode\<close> field is present, the system is in manual mode
  after the request exactly when the field converts to the integer 1. Every other value
  selects automatic mode, and the request is answered with 200 either way; no value is
  rejected.
\<close>

theorem modo_manual_sse_um:
  assumes "hasArg req ''mode''"
  shows "modoManual (snd (handleSetMode L req s)) = (toInt L (arg req ''mode'') = 1)
       \<and> fst (handleSetMode L req s) = ok_1
       \<and> status (fst (handleSetMode L req s)) = 200"
  using assms by (simp add: handleSetMode_present ok_1_def)

text \<open>
  The texts \<^verbatim>\<open>2\<close>, \<^verbatim>\<open>-1\<close> and \<^verbatim>\<open>abc\<close> (which converts to 0) all leave
  manual mode for automatic mode, with answer 200.
\<close>

theorem modo_manual_sse_um_witness:
  "hasArg [''mode'' \<mapsto> ''1''] ''mode''
   \<and> modoManual (snd (handleSetMode arduino [''mode'' \<mapsto> ''1''] boot))
   \<and> hasArg [''mode'' \<mapsto> ''2''] ''mode''
   \<and> \<not> modoManual (snd (handleSetMode arduino [''mode'' \<mapsto> ''2''] (setup_sketch noite)))
   \<and> \<not> modoManual (snd (handleSetMode arduino [''mode'' \<mapsto> ''2'']
          (snd (handleSetMode arduino [''mode'' \<mapsto> ''1''] boot))))
   \<and> \<not> modoManual (snd (handleSetMode arduino [''mode'' \<mapsto> ''-1'']
          (snd (handleSetMode arduino [''mode'' \<mapsto> ''1''] boot))))
   \<and> \<not> modoManual (snd (handleSetMode arduino [''mode'' \<mapsto> ''abc'']
          (snd (handleSetMode arduino [''mode'' \<mapsto> ''1''] boot))))
   \<and> status (fst (handleSetMode arduino [''mode'' \<mapsto> ''abc'']
          (snd (handleSetMode arduino [''mode'' \<mapsto> ''1''] boot)))) = 200"
  using modo_manual_sse_um [of "[''mode'' \<mapsto> ''1'']" arduino boot]
        modo_manual_sse_um [of "[''mode'' \<mapsto> ''2'']" arduino "setup_sketch noite"]
        modo_manual_sse_um [of "[''mode'' \<mapsto> ''2'']" arduino "snd (handleSetMode arduino [''mode'' \<mapsto> ''1''] boot)"]
        modo_manual_sse_um [of "[''mode'' \<mapsto> ''-1'']" arduino "snd (handleSetMode arduino [''mode'' \<mapsto> ''1''] boot)"]
        modo_manual_sse_um [of "[''mode'' \<mapsto> ''abc'']" arduino "snd (handleSetMode arduino [''mode'' \<mapsto> ''1''] boot)"]
  by (simp add: hasArg_def arg_def arduino_fields atol_exemplos ok_1_def)

end
